theory Spec2Isabelle
  imports Main
begin

section \<open>Syntax trees\<close>

text \<open>
  The session works on \<^verbatim>\<open>go/ast\<close> trees. Of an expression the code only asks whether it
  is an identifier (\<^verbatim>\<open>isNamedIdent\<close>) and only builds identifiers and calls; of a
  statement it only asks whether it is an assignment and only builds expression
  statements. Every other kind of node is kept opaque. Source positions are left out.
  \<^verbatim>\<open>ast.Stmt\<close> is an interface type: \<open>NilStmt\<close> is its nil value, which is what the
  cells of a freshly allocated array of statements hold.
\<close>

datatype expr =
    Ident string
  | CallExpr expr "expr list"
  | OtherExpr string

datatype stmt =
    ExprStmt expr
  | AssignStmt "expr list" string "expr list"
  | OtherStmt string
  | NilStmt

datatype decl =
    FuncDecl string "stmt list option"
  | GenDecl string

text \<open>
  \<^verbatim>\<open>ast.File\<close>: the package name, the declarations, and the file scope, which maps a
  name to the declaration that introduces it (\<^verbatim>\<open>Scope.Lookup(name).Decl\<close>). A function
  declared without a body has \<open>None\<close> for it.
\<close>

record ast_file =
  Name :: string
  Decls :: "decl list"
  Scope :: "(string \<times> decl) list"

section \<open>Errors\<close>

text \<open>
  Go's \<^verbatim>\<open>error\<close> values, by dynamic type, each with the text its \<^verbatim>\<open>Error()\<close>
  method returns: the package's own \<^verbatim>\<open>Error\<close> string type, \<^verbatim>\<open>scanner.ErrorList\<close>,
  \<^verbatim>\<open>*exec.ExitError\<close> (with \<open>Some n\<close> when \<^verbatim>\<open>ProcessState.Sys()\<close> is a
  \<^verbatim>\<open>syscall.WaitStatus\<close> whose \<^verbatim>\<open>ExitStatus()\<close> is \<open>n\<close>), the value of
  \<^verbatim>\<open>errors.New\<close>, and any other error of the operating system.
\<close>

datatype error =
    Error string
  | ErrorList string
  | ExitError "int option" string
  | errorString string
  | PathError string

definition ErrContinue :: error where
  "ErrContinue = Error ''<continue input>''"

definition ErrQuit :: error where
  "ErrQuit = Error ''<quit session>''"

fun Error_msg :: "error \<Rightarrow> string" where
  "Error_msg (Error m) = m"
| "Error_msg (ErrorList m) = m"
| "Error_msg (ExitError st m) = m"
| "Error_msg (errorString m) = m"
| "Error_msg (PathError m) = m"

section \<open>The session\<close>

text \<open>
  \<^verbatim>\<open>Session\<close>. In Go \<^verbatim>\<open>mainBody\<close> points at the body of the \<^verbatim>\<open>main\<close> function inside
  \<^verbatim>\<open>File\<close>; here \<open>mainBody\<close> is that statement list and \<open>File\<close> is the rest of the tree,
  and the two are printed together. \<^verbatim>\<open>Fset\<close>, \<^verbatim>\<open>Types\<close> and \<^verbatim>\<open>TypeInfo\<close> are only
  handed on to the parser, the printer and the quick-fix pass and are left out.
  \<^verbatim>\<open>storedBodyLength\<close> is only ever assigned a \<^verbatim>\<open>len\<close>, so it is a \<open>nat\<close>.

  \<^verbatim>\<open>mainBody.List\<close> is a Go slice: \<open>mainBody\<close> is its elements, as many as its length,
  and \<open>spare\<close> is what the backing array holds after them, up to the capacity. A
  slice expression can bring these cells back into the list, and \<^verbatim>\<open>append\<close> writes
  over them as long as they suffice. No other slice shares the array: the code
  reaches the list through \<^verbatim>\<open>s.mainBody.List\<close> alone.
\<close>

record session =
  FilePath :: string
  File :: ast_file
  ExtraFilePaths :: "string list"
  ExtraFiles :: "ast_file list"
  mainBody :: "stmt list"
  spare :: "stmt list"
  storedBodyLength :: nat

definition printerName :: string where
  "printerName = ''__gophernotes''"

section \<open>What lies outside the source file\<close>

text \<open>
  Everything \<^verbatim>\<open>repl.go\<close> calls but does not define is a field of the environment. The
  type \<open>'w\<close> is the state of the outside world (the file system, the processes): a call
  that touches it takes the world and returns the new one.

  The Go library and the external tools:
  \<^item> \<open>ParseExpr\<close> is \<^verbatim>\<open>parser.ParseExpr\<close>;
  \<^item> \<open>ParseFile name src\<close> is \<^verbatim>\<open>parser.ParseFile\<close> on source text: on a syntax error
    it still returns a (partial) tree, next to the error;
  \<^item> \<open>Fprint path f body\<close> is \<^verbatim>\<open>printer.Fprint\<close> of the tree \<open>f\<close> into the open file
    \<open>path\<close>; \<open>body\<close> is \<open>Some\<close> of the live body of \<^verbatim>\<open>main\<close> when the tree is the
    session's own;
  \<^item> \<open>os_Create\<close>, \<open>os_Write\<close>, \<open>ReadFile\<close>, \<open>TempFile\<close> are the file operations;
  \<^item> \<open>exec_Output name args\<close> runs a command and returns its standard output, its
    captured standard error and its error; \<open>exec_Run name args\<close> runs a command with
    both streams captured into one buffer;
  \<^item> \<open>QuickFix\<close> is \<^verbatim>\<open>quickfix.QuickFix\<close> on one file, \<open>Dir\<close> is \<^verbatim>\<open>filepath.Dir\<close>,
    \<open>TrimSpace\<close> is \<^verbatim>\<open>strings.TrimSpace\<close>;
  \<^item> \<open>growslice cap n\<close> is the capacity that the runtime gives the new backing
    array when \<^verbatim>\<open>append\<close> needs room for \<open>n\<close> elements and the capacity \<open>cap\<close> is too
    small. The language only promises that the new array is large enough.

  Functions of the package that live in its other files:
  \<^item> \<open>clearQuickFix\<close> and \<open>doQuickFix\<close>, the quick-fix passes run by \<^verbatim>\<open>Eval\<close>;
  \<^item> \<open>isPureExpr\<close>, the purity test used by the cleanup;
  \<^item> \<open>commands\<close>, the table of special commands: a name and an action each.

  The logging calls (\<^verbatim>\<open>debugf\<close>, \<^verbatim>\<open>errorf\<close>, \<^verbatim>\<open>infof\<close>) change nothing that is
  modelled and are left out.
\<close>

record 'w env =
  ParseExpr :: "string \<Rightarrow> error + expr"
  ParseFile :: "string \<Rightarrow> string \<Rightarrow> ast_file \<times> error option"
  Fprint :: "string \<Rightarrow> ast_file \<Rightarrow> stmt list option \<Rightarrow> 'w \<Rightarrow> error option \<times> 'w"
  os_Create :: "string \<Rightarrow> 'w \<Rightarrow> error option \<times> 'w"
  os_Write :: "string \<Rightarrow> string \<Rightarrow> 'w \<Rightarrow> error option \<times> 'w"
  ReadFile :: "string \<Rightarrow> 'w \<Rightarrow> (error + string) \<times> 'w"
  TempFile :: "string \<Rightarrow> string \<Rightarrow> 'w \<Rightarrow> (error + string) \<times> 'w"
  exec_Output :: "string \<Rightarrow> string list \<Rightarrow> 'w \<Rightarrow> (string \<times> string \<times> error option) \<times> 'w"
  exec_Run :: "string \<Rightarrow> string list \<Rightarrow> 'w \<Rightarrow> (string \<times> error option) \<times> 'w"
  QuickFix :: "ast_file \<Rightarrow> ast_file"
  Dir :: "string \<Rightarrow> string"
  TrimSpace :: "string \<Rightarrow> string"
  growslice :: "nat \<Rightarrow> nat \<Rightarrow> nat"
  clearQuickFix :: "session \<Rightarrow> 'w \<Rightarrow> session \<times> 'w"
  doQuickFix :: "session \<Rightarrow> 'w \<Rightarrow> session \<times> 'w"
  isPureExpr :: "session \<Rightarrow> expr \<Rightarrow> bool"
  commands :: "(string \<times> (session \<Rightarrow> string \<Rightarrow> 'w \<Rightarrow> error option \<times> session \<times> 'w)) list"

section \<open>The functions of package strings that the code uses\<close>

text \<open>Strings are byte lists, as in Go; an index is an \<open>int\<close> and \<open>-1\<close> means absent.\<close>

definition HasPrefix :: "string \<Rightarrow> string \<Rightarrow> bool" where
  "HasPrefix s p = (take (length p) s = p)"

definition HasSuffix :: "string \<Rightarrow> string \<Rightarrow> bool" where
  "HasSuffix s p = (length p \<le> length s \<and> drop (length s - length p) s = p)"

definition TrimPrefix :: "string \<Rightarrow> string \<Rightarrow> string" where
  "TrimPrefix s p = (if HasPrefix s p then drop (length p) s else s)"

definition occursAt :: "string \<Rightarrow> string \<Rightarrow> nat \<Rightarrow> bool" where
  "occursAt s sub i = (i + length sub \<le> length s \<and> take (length sub) (drop i s) = sub)"

definition LastIndex :: "string \<Rightarrow> string \<Rightarrow> int" where
  "LastIndex s sub =
     (case find (occursAt s sub) (rev [0..<Suc (length s)]) of
        None \<Rightarrow> - 1
      | Some i \<Rightarrow> int i)"

definition Contains :: "string \<Rightarrow> string \<Rightarrow> bool" where
  "Contains s sub = (find (occursAt s sub) [0..<Suc (length s)] \<noteq> None)"

text \<open>\<^verbatim>\<open>strings.Split(s, "\n")\<close> and \<^verbatim>\<open>strings.Join(xs, "\n")\<close>.\<close>

definition newline :: char where
  "newline = CHR 0x0A"

fun Split :: "string \<Rightarrow> string list" where
  "Split [] = [[]]"
| "Split (c # cs) =
     (if c = newline then [] # Split cs
      else (c # hd (Split cs)) # tl (Split cs))"

fun Join :: "string list \<Rightarrow> string" where
  "Join [] = []"
| "Join [x] = x"
| "Join (x # y # ys) = x @ [newline] @ Join (y # ys)"

section \<open>The body as a slice\<close>

text \<open>
  \<^verbatim>\<open>append(xs, ys...)\<close> on a slice with the elements \<open>xs\<close> and the spare cells \<open>sp\<close>: the
  elements of the result are \<open>xs @ ys\<close>. When the capacity suffices the new elements
  are written over the first spare cells and the rest of them stay; otherwise a new
  array is allocated, and what it has beyond the elements is nil.
\<close>

definition appendSpare :: "'w env \<Rightarrow> stmt list \<Rightarrow> stmt list \<Rightarrow> stmt list \<Rightarrow> stmt list" where
  "appendSpare env xs sp ys =
     (if length xs + length ys \<le> length xs + length sp
      then drop (length ys) sp
      else replicate
             (growslice env (length xs + length sp) (length xs + length ys) -
              (length xs + length ys))
             NilStmt)"

text \<open>
  The slice expression \<^verbatim>\<open>xs[0:n]\<close>: the first \<open>n\<close> cells of the backing array become
  the elements and the others the spare cells. With \<open>n\<close> beyond the length this
  brings spare cells back; with \<open>n\<close> beyond the capacity Go panics, which is \<open>None\<close>.
\<close>

definition reslice :: "'a list \<Rightarrow> 'a list \<Rightarrow> nat \<Rightarrow> ('a list \<times> 'a list) option" where
  "reslice xs sp n =
     (if n \<le> length xs + length sp
      then Some (take n (xs @ sp), drop n (xs @ sp))
      else None)"

text \<open>The assignment \<^verbatim>\<open>s.mainBody.List = s.mainBody.List[0:n]\<close>.\<close>

definition resliceBody :: "session \<Rightarrow> nat \<Rightarrow> session option" where
  "resliceBody s n =
     (case reslice (mainBody s) (spare s) n of
        None \<Rightarrow> None
      | Some (b, sp) \<Rightarrow> Some (s\<lparr>mainBody := b, spare := sp\<rparr>))"

section \<open>Appending to the body\<close>

definition appendStatements :: "'w env \<Rightarrow> stmt list \<Rightarrow> session \<Rightarrow> session" where
  "appendStatements env stmts s =
     s\<lparr>mainBody := mainBody s @ stmts,
       spare := appendSpare env (mainBody s) (spare s) stmts\<rparr>"

definition printCall :: "expr list \<Rightarrow> stmt" where
  "printCall args = ExprStmt (CallExpr (Ident printerName) args)"

definition evalExpr :: "'w env \<Rightarrow> string \<Rightarrow> session \<Rightarrow> (error + expr) \<times> session" where
  "evalExpr env inp s =
     (case ParseExpr env inp of
        Inl err \<Rightarrow> (Inl err, s)
      | Inr e \<Rightarrow> (Inr e, appendStatements env [printCall [e]] s))"

fun isNamedIdent :: "expr \<Rightarrow> string \<Rightarrow> bool" where
  "isNamedIdent (Ident n) name = (n = name)"
| "isNamedIdent _ name = False"

section \<open>The brace counter of separateEvalStmt\<close>

text \<open>
  The two adjustments that \<^verbatim>\<open>separateEvalStmt\<close> makes to \<^verbatim>\<open>bracketCount\<close> for every
  line it buffers: first the closing one, then the opening one.
\<close>

definition countClose :: "string \<Rightarrow> int \<Rightarrow> int" where
  "countClose line bracketCount =
     (if LastIndex line ''}'' = int (length line) - 1
      then (if \<not> HasSuffix line ''{}'' then bracketCount - 1 else bracketCount)
      else bracketCount)"

definition countOpen :: "string \<Rightarrow> int \<Rightarrow> int" where
  "countOpen line bracketCount =
     (if LastIndex line ''{'' = int (length line) - 1
      then bracketCount + 1
      else bracketCount)"

section \<open>Files included from outside: importFile\<close>

text \<open>
  The loop of \<^verbatim>\<open>importFile\<close> that drops the first function declaration named
  \<^verbatim>\<open>main\<close>: \<open>None\<close> when there is none.
\<close>

fun removeMain :: "decl list \<Rightarrow> decl list option" where
  "removeMain [] = None"
| "removeMain (FuncDecl n b # ds) =
     (if n = ''main'' then Some ds else map_option ((#) (FuncDecl n b)) (removeMain ds))"
| "removeMain (GenDecl g # ds) = map_option ((#) (GenDecl g)) (removeMain ds)"

definition importFile :: "'w env \<Rightarrow> string \<Rightarrow> session \<Rightarrow> 'w \<Rightarrow> error option \<times> session \<times> 'w" where
  "importFile env src s w =
     (case TempFile env (Dir env (FilePath s)) ''gore_extarnal_'' w of
        (Inl err, w1) \<Rightarrow> (Some err, s, w1)
      | (Inr tmp, w1) \<Rightarrow>
          (let ext = tmp @ ''.go'' in
           case ParseFile env ext src of
             (f, Some err) \<Rightarrow> (Some err, s, w1)
           | (f, None) \<Rightarrow>
               (let f1 = f\<lparr>Name := ''main''\<rparr>;
                    f2 = (case removeMain (Decls f1) of
                            None \<Rightarrow> f1
                          | Some ds \<Rightarrow> QuickFix env (f1\<lparr>Decls := ds\<rparr>))
                in case os_Create env ext w1 of
                     (Some err, w2) \<Rightarrow> (Some err, s, w2)
                   | (None, w2) \<Rightarrow>
                       (case Fprint env ext f2 None w2 of
                          (Some err, w3) \<Rightarrow> (Some err, s, w3)
                        | (None, w3) \<Rightarrow>
                            (None,
                             s\<lparr>ExtraFilePaths := ExtraFilePaths s @ [ext],
                               ExtraFiles := ExtraFiles s @ [f2]\<rparr>,
                             w3)))))"

section \<open>Statements: evalStmt\<close>

definition appendForImport :: string where
  "appendForImport = ''package main'' @ [newline, newline, newline, CHR 0x09, CHR 0x09, CHR 0x09]"

text \<open>
  The branch of \<^verbatim>\<open>evalStmt\<close> taken when the wrapped fragment does not parse: the
  fragment is written to \<^verbatim>\<open>func_proxy.go\<close>, passed through \<^verbatim>\<open>goimports\<close> and imported
  as a file of its own. The first component is \<open>Some err\<close> where the branch returns
  \<open>err\<close> from \<^verbatim>\<open>evalStmt\<close>, and \<open>None\<close> where control falls out of the branch: an
  error of \<^verbatim>\<open>importFile\<close> that is not a \<^verbatim>\<open>scanner.ErrorList\<close> is only logged.
\<close>

definition evalStmt_proxy :: "'w env \<Rightarrow> string \<Rightarrow> session \<Rightarrow> 'w \<Rightarrow> error option \<times> session \<times> 'w" where
  "evalStmt_proxy env inp s w =
     (let path = Dir env (FilePath s) @ ''/func_proxy.go'' in
      case os_Create env path w of
        (Some err, w1) \<Rightarrow> (Some err, s, w1)
      | (None, w1) \<Rightarrow>
          (case os_Write env path (appendForImport @ inp) w1 of
             (Some err, w2) \<Rightarrow> (Some err, s, w2)
           | (None, w2) \<Rightarrow>
               (case exec_Run env ''goimports'' [''-w'', path] w2 of
                  ((b, Some err), w3) \<Rightarrow> (Some (errorString b), s, w3)
                | ((b, None), w3) \<Rightarrow>
                    (case ReadFile env path w3 of
                       (Inl err, w4) \<Rightarrow> (Some err, s, w4)
                     | (Inr functproxy, w4) \<Rightarrow>
                         (case importFile env functproxy s w4 of
                            (Some (ErrorList m), s5, w5) \<Rightarrow> (Some ErrContinue, s5, w5)
                          | (_, s5, w5) \<Rightarrow> (None, s5, w5))))))"

text \<open>
  The statements \<^verbatim>\<open>evalStmt\<close> appends, given those of the parsed block: when the last
  one is an assignment and printing is wanted, a call of the printer on its left-hand
  sides that are not the blank identifier, if there is any.
\<close>

definition printLastValues :: "bool \<Rightarrow> stmt list \<Rightarrow> stmt list" where
  "printLastValues noPrint stmts =
     (if 0 < length stmts then
        (if \<not> noPrint then
           (case last stmts of
              AssignStmt lhs tok rhs \<Rightarrow>
                (let vs = filter (\<lambda>v. \<not> isNamedIdent v ''_'') lhs
                 in if 0 < length vs then stmts @ [printCall vs] else stmts)
            | _ \<Rightarrow> stmts)
         else stmts)
      else stmts)"

text \<open>
  \<^verbatim>\<open>evalStmt\<close>. The result is \<open>None\<close> where the Go code panics: the file scope of the
  parsed tree has no \<^verbatim>\<open>F\<close>, or \<^verbatim>\<open>F\<close> is not a function declaration, or it has no
  body. Otherwise it is the returned error with the session and the world.
\<close>

definition evalStmt :: "'w env \<Rightarrow> string \<Rightarrow> bool \<Rightarrow> session \<Rightarrow> 'w \<Rightarrow> (error option \<times> session \<times> 'w) option" where
  "evalStmt env inp noPrint s w =
     (let src = ''package P; func F() { '' @ inp @ '' }'';
          (f, perr) = ParseFile env ''stmt.go'' src;
          (early, s1, w1) = (case perr of
                               None \<Rightarrow> (None, s, w)
                             | Some e \<Rightarrow> evalStmt_proxy env inp s w)
      in case early of
           Some err \<Rightarrow> Some (Some err, s1, w1)
         | None \<Rightarrow>
             (case map_of (Scope f) ''F'' of
                Some (FuncDecl n (Some stmts)) \<Rightarrow>
                  Some (None, appendStatements env (printLastValues noPrint stmts) s1, w1)
              | _ \<Rightarrow> None))"

section \<open>Splitting a fragment: separateEvalStmt\<close>

text \<open>The local variables of the loop of \<^verbatim>\<open>separateEvalStmt\<close>.\<close>

record sepvars =
  stmtLines :: "string list"
  exprCount :: int
  bracketCount :: int

text \<open>
  What one round of the loop does: it panics, it returns an error from
  \<^verbatim>\<open>separateEvalStmt\<close>, or it goes on to the next line.
\<close>

datatype 'w round = Panic | Failed error session 'w | Next sepvars session 'w

text \<open>The second half of the loop body, from the closing-brace test on.\<close>

definition separateBuffer :: "'w env \<Rightarrow> string \<Rightarrow> sepvars \<Rightarrow> session \<Rightarrow> 'w \<Rightarrow> 'w round" where
  "separateBuffer env line v s w =
     (let bc = countOpen line (countClose line (bracketCount v));
          buffered = stmtLines v @ [line]
      in if bc = 0 \<and> 0 < length buffered then
           (case evalStmt env (Join buffered) True s w of
              None \<Rightarrow> Panic
            | Some (Some err, s1, w1) \<Rightarrow> Failed err s1 w1
            | Some (None, s1, w1) \<Rightarrow> Next (v\<lparr>stmtLines := [], bracketCount := bc\<rparr>) s1 w1)
         else Next (v\<lparr>stmtLines := buffered, bracketCount := bc, exprCount := exprCount v + 1\<rparr>) s w)"

definition separateStep :: "'w env \<Rightarrow> string \<Rightarrow> sepvars \<Rightarrow> session \<Rightarrow> 'w \<Rightarrow> 'w round" where
  "separateStep env line v s w =
     (if bracketCount v = 0 \<and> length (stmtLines v) = 0 then
        (case evalExpr env line s of
           (Inr e, s1) \<Rightarrow> Next v s1 w
         | (Inl err, s1) \<Rightarrow>
             separateBuffer env line (v\<lparr>bracketCount := countOpen line (bracketCount v)\<rparr>) s1 w)
      else separateBuffer env line v s w)"

fun separateLoop :: "'w env \<Rightarrow> string list \<Rightarrow> sepvars \<Rightarrow> session \<Rightarrow> 'w \<Rightarrow> 'w round" where
  "separateLoop env [] v s w = Next v s w"
| "separateLoop env (line # rest) v s w =
     (case separateStep env line v s w of
        Next v1 s1 w1 \<Rightarrow> separateLoop env rest v1 s1 w1
      | Failed err s1 w1 \<Rightarrow> Failed err s1 w1
      | Panic \<Rightarrow> Panic)"

definition sepvars0 :: sepvars where
  "sepvars0 = \<lparr>stmtLines = [], exprCount = 0, bracketCount = 0\<rparr>"

definition separateEvalStmt :: "'w env \<Rightarrow> string \<Rightarrow> session \<Rightarrow> 'w \<Rightarrow> (error option \<times> session \<times> 'w) option" where
  "separateEvalStmt env inp s w =
     (case separateLoop env (Split inp) sepvars0 s w of
        Panic \<Rightarrow> None
      | Failed err s1 w1 \<Rightarrow> Some (Some err, s1, w1)
      | Next v s1 w1 \<Rightarrow>
          (if 0 < length (stmtLines v)
           then evalStmt env (Join (stmtLines v)) (0 < exprCount v) s1 w1
           else Some (None, s1, w1)))"

section \<open>The cleanup pass: cleanEvalStmt\<close>

text \<open>
  One round of the loop. The result is \<open>None\<close> where the slice expression panics,
  which it cannot do here: \<^verbatim>\<open>beforeLines\<close> is the length before \<^verbatim>\<open>evalExpr\<close> appended.
\<close>

definition cleanStep ::
  "'w env \<Rightarrow> string \<Rightarrow> string list \<Rightarrow> session \<Rightarrow> (string list \<times> session) option" where
  "cleanStep env line lines s =
     (let beforeLines = length (mainBody s) in
      case evalExpr env line s of
        (Inr e, s1) \<Rightarrow>
          (if \<not> isPureExpr env s1 e
           then (case resliceBody s1 beforeLines of
                   None \<Rightarrow> None
                 | Some s2 \<Rightarrow> Some (lines @ [line], s2))
           else Some (lines, s1))
      | (Inl err, s1) \<Rightarrow> Some (lines @ [line], s1))"

fun cleanLoop ::
  "'w env \<Rightarrow> string list \<Rightarrow> string list \<Rightarrow> session \<Rightarrow> (string list \<times> session) option" where
  "cleanLoop env [] lines s = Some (lines, s)"
| "cleanLoop env (line # rest) lines s =
     (case cleanStep env line lines s of
        None \<Rightarrow> None
      | Some (lines1, s1) \<Rightarrow> cleanLoop env rest lines1 s1)"

definition cleanEvalStmt :: "'w env \<Rightarrow> string \<Rightarrow> session \<Rightarrow> 'w \<Rightarrow> (error option \<times> session \<times> 'w) option" where
  "cleanEvalStmt env inp s w =
     (case cleanLoop env (Split inp) [] s of
        None \<Rightarrow> None
      | Some (lines, s1) \<Rightarrow>
          (if length lines \<noteq> 0
           then evalStmt env (Join lines) True s1 w
           else Some (None, s1, w)))"

section \<open>Checkpoint and rollback\<close>

definition storeMainBody :: "session \<Rightarrow> session" where
  "storeMainBody s = s\<lparr>storedBodyLength := length (mainBody s)\<rparr>"

text \<open>\<^verbatim>\<open>restoreMainBody\<close>; \<open>None\<close> where the slice expression panics.\<close>

definition restoreMainBody :: "session \<Rightarrow> session option" where
  "restoreMainBody s = resliceBody s (storedBodyLength s)"

section \<open>Running the program\<close>

text \<open>The result of a run: the standard output, the standard error, the error.\<close>

type_synonym run_result = "string \<times> string \<times> error option"

definition goRun :: "'w env \<Rightarrow> string list \<Rightarrow> 'w \<Rightarrow> run_result \<times> 'w" where
  "goRun env files w = exec_Output env ''go'' ([''run''] @ files) w"

definition Run :: "'w env \<Rightarrow> session \<Rightarrow> 'w \<Rightarrow> run_result \<times> 'w" where
  "Run env s w =
     (case os_Create env (FilePath s) w of
        (Some err, w1) \<Rightarrow> (([], [], Some err), w1)
      | (None, w1) \<Rightarrow>
          (case Fprint env (FilePath s) (File s) (Some (mainBody s)) w1 of
             (Some err, w2) \<Rightarrow> (([], [], Some err), w2)
           | (None, w2) \<Rightarrow> goRun env (ExtraFilePaths s @ [FilePath s]) w2))"

section \<open>Eval\<close>

subsection \<open>Special commands\<close>

text \<open>
  The lines between parentheses that follow a special line: \<^verbatim>\<open>inLines[idx+advance]\<close> is
  read until a line contains a closing parenthesis. Running off the end of
  \<^verbatim>\<open>inLines\<close> is a panic, the result \<open>None\<close>.
\<close>

fun collectArgs :: "string list \<Rightarrow> string list option" where
  "collectArgs [] = None"
| "collectArgs (currentLine # rest) =
     (if \<not> Contains currentLine '')''
      then map_option ((#) currentLine) (collectArgs rest)
      else Some [])"

text \<open>
  The action of one command on each of its arguments. The first component is
  \<open>Some err\<close> when the action returned \<^verbatim>\<open>ErrQuit\<close>, which ends \<^verbatim>\<open>Eval\<close>; any other
  error of an action is only logged.
\<close>

fun applyArgs ::
  "'w env \<Rightarrow> (session \<Rightarrow> string \<Rightarrow> 'w \<Rightarrow> error option \<times> session \<times> 'w) \<Rightarrow> string list \<Rightarrow>
   session \<Rightarrow> 'w \<Rightarrow> error option \<times> session \<times> 'w" where
  "applyArgs env action [] s w = (None, s, w)"
| "applyArgs env action (arg # args) s w =
     (if arg = [] \<or> HasPrefix arg '' '' then
        (case action s (TrimSpace env arg) w of
           (Some err, s1, w1) \<Rightarrow>
             (if err = ErrQuit then (Some err, s1, w1) else applyArgs env action args s1 w1)
         | (None, s1, w1) \<Rightarrow> applyArgs env action args s1 w1)
      else applyArgs env action args s w)"

text \<open>
  The loop over the table of commands for one special line; \<open>rest\<close> are the lines of
  the fragment after it.
\<close>

fun runCommands ::
  "'w env \<Rightarrow> (string \<times> (session \<Rightarrow> string \<Rightarrow> 'w \<Rightarrow> error option \<times> session \<times> 'w)) list \<Rightarrow>
   string \<Rightarrow> string list \<Rightarrow> session \<Rightarrow> 'w \<Rightarrow> (error option \<times> session \<times> 'w) option" where
  "runCommands env [] line rest s w = Some (None, s, w)"
| "runCommands env ((name, action) # cs) line rest s w =
     (let arg0 = TrimPrefix line ('':'' @ name);
          arg = (if name = ''import'' then TrimPrefix arg0 ''import'' else arg0)
      in if arg = line then runCommands env cs line rest s w
         else
           (case (if HasPrefix (TrimSpace env arg) ''('' then collectArgs rest else Some [arg]) of
              None \<Rightarrow> None
            | Some args \<Rightarrow>
                (case applyArgs env action args s w of
                   (Some err, s1, w1) \<Rightarrow> Some (Some err, s1, w1)
                 | (None, s1, w1) \<Rightarrow> runCommands env cs line rest s1 w1)))"

text \<open>
  The loop over the lines of the fragment: a line that is not special is collected in
  \<^verbatim>\<open>nonImportLines\<close>, a special one is run through the commands.
\<close>

fun specialLoop ::
  "'w env \<Rightarrow> string list \<Rightarrow> string list \<Rightarrow> session \<Rightarrow> 'w \<Rightarrow>
   (error option \<times> string list \<times> session \<times> 'w) option" where
  "specialLoop env [] nonImportLines s w = Some (None, nonImportLines, s, w)"
| "specialLoop env (line # rest) nonImportLines s w =
     (if \<not> HasPrefix line ''import'' \<and> \<not> HasPrefix line '':'' \<and>
         \<not> HasPrefix (TrimSpace env line) [CHR 0x22] \<and> \<not> HasPrefix line '')''
      then specialLoop env rest (nonImportLines @ [line]) s w
      else
        (case runCommands env (commands env) line rest s w of
           None \<Rightarrow> None
         | Some (Some err, s1, w1) \<Rightarrow> Some (Some err, nonImportLines, s1, w1)
         | Some (None, s1, w1) \<Rightarrow> specialLoop env rest nonImportLines s1 w1))"

subsection \<open>After the run\<close>

text \<open>
  How \<^verbatim>\<open>Eval\<close> reads the result of the run: on exit status 2 the body is restored and
  the error of the run dropped. The result is the session and the error kept.
\<close>

definition Eval_rollback :: "string \<Rightarrow> error option \<Rightarrow> session \<Rightarrow> (session \<times> error option) option" where
  "Eval_rollback stderr runErr s =
     (if runErr \<noteq> None \<or> stderr \<noteq> [] then
        (case runErr of
           Some (ExitError (Some st) m) \<Rightarrow>
             (if st = 2 then
                (case restoreMainBody s of
                   None \<Rightarrow> None
                 | Some s1 \<Rightarrow> Some (s1, None))
              else Some (s, runErr))
         | _ \<Rightarrow> Some (s, runErr))
      else Some (s, runErr))"

text \<open>
  The cleanup of the session file: the body is cut to \<^verbatim>\<open>priorListLength\<close>, the
  fragment goes through \<^verbatim>\<open>cleanEvalStmt\<close>, and the session file is created and
  printed again. The first component is \<open>Some err\<close> where \<^verbatim>\<open>Eval\<close> returns \<open>err\<close> from
  one of these steps; the whole is \<open>None\<close> where a step panics.
\<close>

definition Eval_tidy ::
  "'w env \<Rightarrow> string \<Rightarrow> nat \<Rightarrow> session \<Rightarrow> 'w \<Rightarrow> (error option \<times> session \<times> 'w) option" where
  "Eval_tidy env inp priorListLength s w =
     (case resliceBody s priorListLength of
        None \<Rightarrow> None
      | Some s0 \<Rightarrow>
          (case cleanEvalStmt env inp s0 w of
             None \<Rightarrow> None
           | Some (Some err, s1, w1) \<Rightarrow> Some (Some err, s1, w1)
           | Some (None, s1, w1) \<Rightarrow>
               (case os_Create env (FilePath s1) w1 of
                  (Some err, w2) \<Rightarrow> Some (Some err, s1, w2)
                | (None, w2) \<Rightarrow>
                    (case Fprint env (FilePath s1) (File s1) (Some (mainBody s1)) w2 of
                       (Some err, w3) \<Rightarrow> Some (Some err, s1, w3)
                     | (None, w3) \<Rightarrow> Some (None, s1, w3)))))"

text \<open>
  The end of \<^verbatim>\<open>Eval\<close>: the cleanup, whose error is returned with the output and the
  standard error of the run; after a cleanup without error, a standard error that is
  not empty becomes the error returned.
\<close>

definition Eval_cleanup ::
  "'w env \<Rightarrow> string \<Rightarrow> nat \<Rightarrow> string \<Rightarrow> string \<Rightarrow> error option \<Rightarrow> session \<Rightarrow> 'w \<Rightarrow>
   (run_result \<times> session \<times> 'w) option" where
  "Eval_cleanup env inp priorListLength output stderr runErr s w =
     (case Eval_tidy env inp priorListLength s w of
        None \<Rightarrow> None
      | Some (Some err, s1, w1) \<Rightarrow> Some ((output, stderr, Some err), s1, w1)
      | Some (None, s1, w1) \<Rightarrow>
          Some ((output, stderr,
                 if stderr \<noteq> []
                 then Some (errorString ''Unexpected stderr from execution'')
                 else runErr),
                s1, w1))"

text \<open>\<^verbatim>\<open>Eval\<close> from the call of \<^verbatim>\<open>Run\<close> on.\<close>

definition Eval_run ::
  "'w env \<Rightarrow> string \<Rightarrow> nat \<Rightarrow> session \<Rightarrow> 'w \<Rightarrow> (run_result \<times> session \<times> 'w) option" where
  "Eval_run env inp priorListLength s w =
     (case Run env s w of
        ((output, stderr, runErr), w1) \<Rightarrow>
          (case Eval_rollback stderr runErr s of
             None \<Rightarrow> None
           | Some (s1, runErr1) \<Rightarrow>
               Eval_cleanup env inp priorListLength output stderr runErr1 s1 w1))"

subsection \<open>The whole function\<close>

text \<open>
  \<^verbatim>\<open>Eval\<close>: the returned triple, the session as the call leaves it, and the world;
  \<open>None\<close> where it panics.
\<close>

definition Eval :: "'w env \<Rightarrow> string \<Rightarrow> session \<Rightarrow> 'w \<Rightarrow> (run_result \<times> session \<times> 'w) option" where
  "Eval env inp s w =
     (case clearQuickFix env s w of
        (s1, w1) \<Rightarrow>
          (case specialLoop env (Split inp) [] (storeMainBody s1) w1 of
             None \<Rightarrow> None
           | Some (Some err, nonImportLines, s2, w2) \<Rightarrow> Some (([], [], Some err), s2, w2)
           | Some (None, nonImportLines, s2, w2) \<Rightarrow>
               (let inp1 = Join nonImportLines in
                if length inp1 = 0 then
                  (case doQuickFix env s2 w2 of (s3, w3) \<Rightarrow> Some (([], [], None), s3, w3))
                else
                  (let priorListLength = length (mainBody s2) in
                   case separateEvalStmt env inp1 s2 w2 of
                     None \<Rightarrow> None
                   | Some (Some err, s3, w3) \<Rightarrow> Some (([], Error_msg err, Some err), s3, w3)
                   | Some (None, s3, w3) \<Rightarrow>
                       (case doQuickFix env s3 w3 of
                          (s4, w4) \<Rightarrow> Eval_run env inp1 priorListLength s4 w4)))))"

section \<open>A concrete environment\<close>

text \<open>
  An environment to run the functions in. The world holds the answer that \<^verbatim>\<open>go run\<close>
  will give and the list of the commands executed so far. The parser knows a few
  expressions and a few statement blocks and reports a syntax error for anything
  else; \<^verbatim>\<open>goimports\<close> fails on what it is given; the file operations succeed; a
  backing array that is too small is doubled, or made to fit if that is more; the
  quick-fix passes leave the session alone; the only command is \<^verbatim>\<open>import\<close>, whose
  action does nothing.
\<close>

record demo_world =
  go_answer :: run_result
  go_calls :: "string list list"

definition demo_exprs :: "(string \<times> expr) list" where
  "demo_exprs =
     [(''1'', OtherExpr ''1''),
      (''1 + 2'', OtherExpr ''1 + 2''),
      (''x'', Ident ''x''),
      (''y'', Ident ''y''),
      (''f()'', CallExpr (Ident ''f'') [])]"

definition demo_blocks :: "(string \<times> stmt list) list" where
  "demo_blocks =
     [(''x := 1'', [AssignStmt [Ident ''x''] '':='' [OtherExpr ''1'']]),
      (''x := y'', [AssignStmt [Ident ''x''] '':='' [Ident ''y'']]),
      (''_ = 1'', [AssignStmt [Ident ''_''] ''='' [OtherExpr ''1'']]),
      (''a, _ := g()'', [AssignStmt [Ident ''a'', Ident ''_''] '':='' [CallExpr (Ident ''g'') []]]),
      (''f()'', [ExprStmt (CallExpr (Ident ''f'') [])]),
      (''if true {'' @ [newline] @ ''}'', [OtherStmt ''if true { }'']),
      (''if true {'' @ [newline] @ ''}'' @ [newline] @ ''1'',
       [OtherStmt ''if true { }'', ExprStmt (OtherExpr ''1'')])]"

definition demo_ParseExpr :: "string \<Rightarrow> error + expr" where
  "demo_ParseExpr inp =
     (case map_of demo_exprs inp of
        None \<Rightarrow> Inl (ErrorList ''1:1: expected operand'')
      | Some e \<Rightarrow> Inr e)"

definition demo_ParseFile :: "string \<Rightarrow> string \<Rightarrow> ast_file \<times> error option" where
  "demo_ParseFile name src =
     (case find (\<lambda>(inp, stmts). src = ''package P; func F() { '' @ inp @ '' }'') demo_blocks of
        None \<Rightarrow> (\<lparr>Name = ''P'', Decls = [], Scope = []\<rparr>, Some (ErrorList ''stmt.go:1:23: expected statement''))
      | Some (inp, stmts) \<Rightarrow>
          (\<lparr>Name = ''P'', Decls = [FuncDecl ''F'' (Some stmts)],
            Scope = [(''F'', FuncDecl ''F'' (Some stmts))]\<rparr>, None))"

definition demo_Dir :: "string \<Rightarrow> string" where
  "demo_Dir path = rev (tl (dropWhile (\<lambda>c. c \<noteq> CHR ''/'') (rev path)))"

definition demo_TrimSpace :: "string \<Rightarrow> string" where
  "demo_TrimSpace s =
     rev (dropWhile (\<lambda>c. c = CHR '' '' \<or> c = CHR 0x09) (rev (dropWhile (\<lambda>c. c = CHR '' '' \<or> c = CHR 0x09) s)))"

fun demo_isPureExpr :: "session \<Rightarrow> expr \<Rightarrow> bool" where
  "demo_isPureExpr s (CallExpr f args) = False"
| "demo_isPureExpr s e = True"

definition demo :: "demo_world env" where
  "demo =
     \<lparr>ParseExpr = demo_ParseExpr,
      ParseFile = demo_ParseFile,
      Fprint = (\<lambda>path f body w. (None, w)),
      os_Create = (\<lambda>path w. (None, w)),
      os_Write = (\<lambda>path content w. (None, w)),
      ReadFile = (\<lambda>path w. (Inl (PathError ''no such file or directory''), w)),
      TempFile = (\<lambda>dir pat w. (Inr (dir @ ''/'' @ pat @ ''1''), w)),
      exec_Output = (\<lambda>name args w. (go_answer w, w\<lparr>go_calls := go_calls w @ [name # args]\<rparr>)),
      exec_Run = (\<lambda>name args w.
         ((''func_proxy.go:4:4: expected declaration'', Some (ExitError (Some 2) ''exit status 2'')),
          w\<lparr>go_calls := go_calls w @ [name # args]\<rparr>)),
      QuickFix = (\<lambda>f. f),
      Dir = demo_Dir,
      TrimSpace = demo_TrimSpace,
      growslice = (\<lambda>cap n. if n \<le> 2 * cap then 2 * cap else n),
      clearQuickFix = (\<lambda>s w. (s, w)),
      doQuickFix = (\<lambda>s w. (s, w)),
      isPureExpr = demo_isPureExpr,
      commands = [(''import'', (\<lambda>s arg w. (None, s, w)))]\<rparr>"

definition demo_session :: session where
  "demo_session =
     \<lparr>FilePath = ''/tmp/s/gophernotes_session.go'',
      File = \<lparr>Name = ''main'', Decls = [GenDecl ''import'', FuncDecl ''__gophernotes'' (Some []), FuncDecl ''main'' (Some [])],
              Scope = [(''__gophernotes'', FuncDecl ''__gophernotes'' (Some [])), (''main'', FuncDecl ''main'' (Some []))]\<rparr>,
      ExtraFilePaths = [],
      ExtraFiles = [],
      mainBody = [],
      spare = [],
      storedBodyLength = 0\<rparr>"

text \<open>A run that succeeds in silence, and a run that does not compile.\<close>

definition run_ok :: demo_world where
  "run_ok = \<lparr>go_answer = ([], [], None), go_calls = []\<rparr>"

definition run_status2 :: demo_world where
  "run_status2 =
     \<lparr>go_answer = ([], ''./gophernotes_session.go:12:2: undefined: y'',
                    Some (ExitError (Some 2) ''exit status 2'')),
      go_calls = []\<rparr>"

text \<open>The session after one file has been included.\<close>

definition demo_session_aux :: session where
  "demo_session_aux =
     demo_session\<lparr>ExtraFilePaths := [''/tmp/s/gore_extarnal_1.go''],
                  ExtraFiles := [\<lparr>Name = ''main'', Decls = [FuncDecl ''Helper'' (Some [])],
                                  Scope = [(''Helper'', FuncDecl ''Helper'' (Some []))]\<rparr>]\<rparr>"

text \<open>A run that ends with exit status 2 and writes nothing to its standard error.\<close>

definition run_status2_silent :: demo_world where
  "run_status2_silent =
     \<lparr>go_answer = ([], [], Some (ExitError (Some 2) ''exit status 2'')), go_calls = []\<rparr>"

section \<open>Facts about the string functions\<close>

lemma occursAt_single: "occursAt s [c] i \<longleftrightarrow> i < length s \<and> s ! i = c"
proof (cases "i < length s")
  case True
  then have "drop i s = s ! i # drop (Suc i) s"
    by (simp add: Cons_nth_drop_Suc)
  with True show ?thesis by (simp add: occursAt_def)
next
  case False
  then show ?thesis by (simp add: occursAt_def)
qed

lemma find_in_set: "find P xs = Some x \<Longrightarrow> x \<in> set xs"
  by (induction xs) (auto split: if_splits)

text \<open>
  The test \<^verbatim>\<open>strings.LastIndex(line, "c") == len(line)-1\<close> holds when the line ends
  with the character, and also when the line is empty: then both sides are \<open>-1\<close>.
\<close>

lemma LastIndex_single: "LastIndex s [c] = int (length s) - 1 \<longleftrightarrow> s = [] \<or> last s = c"
proof (cases s rule: rev_cases)
  case Nil
  then show ?thesis by (simp add: LastIndex_def occursAt_single)
next
  case (snoc ys y)
  let ?n = "length ys"
  have len: "length s = Suc ?n"
    using snoc by simp
  have upt: "rev [0..<Suc (Suc ?n)] = Suc ?n # ?n # rev [0..<?n]"
    by simp
  have L: "LastIndex s [c] =
      (case find (occursAt s [c]) (Suc ?n # ?n # rev [0..<?n]) of None \<Rightarrow> - 1 | Some i \<Rightarrow> int i)"
    unfolding LastIndex_def len upt ..
  have at_n: "occursAt s [c] ?n \<longleftrightarrow> y = c"
    using snoc by (simp add: occursAt_single)
  have at_Suc: "\<not> occursAt s [c] (Suc ?n)"
    using len by (simp add: occursAt_single)
  show ?thesis
  proof (cases "y = c")
    case True
    then show ?thesis using snoc L at_n at_Suc by simp
  next
    case False
    have "i < ?n" if "find (occursAt s [c]) (rev [0..<?n]) = Some i" for i
      using find_in_set[OF that] by simp
    then show ?thesis using snoc False L at_n at_Suc len
      by (auto split: option.splits)
  qed
qed

lemma HasSuffix_iff: "HasSuffix s p \<longleftrightarrow> (\<exists>q. s = q @ p)"
proof
  assume "HasSuffix s p"
  then have "s = take (length s - length p) s @ p"
    by (metis HasSuffix_def append_take_drop_id)
  then show "\<exists>q. s = q @ p" ..
next
  assume "\<exists>q. s = q @ p"
  then show "HasSuffix s p" by (auto simp: HasSuffix_def)
qed

section \<open>The brace counter\<close>

text \<open>
  C8, as the code has it: for a line that is not empty, the counter is decremented
  exactly when the last character of the line is a closing brace and the line does
  not end with the two characters \<^verbatim>\<open>{}\<close>. The test is \<^verbatim>\<open>strings.HasSuffix\<close>, so every
  line that ends with \<^verbatim>\<open>{}\<close> is left alone, not only the line \<^verbatim>\<open>{}\<close> itself.
\<close>

theorem countClose_trailing_brace:
  "line \<noteq> [] \<Longrightarrow>
   countClose line bc = (if last line = CHR ''}'' \<and> \<not> HasSuffix line ''{}'' then bc - 1 else bc)"
  by (simp add: countClose_def LastIndex_single)

theorem countClose_trailing_brace_witness:
  "''}'' \<noteq> [] \<and> countClose ''}'' 1 = 0 \<and> countClose ''{}'' 1 = 1 \<and> countClose ''x'' 1 = 1"
  using countClose_trailing_brace[of "''}''" 1] countClose_trailing_brace[of "''{}''" 1]
    countClose_trailing_brace[of "''x''" 1]
  by (simp add: HasSuffix_def)

text \<open>
  The line \<^verbatim>\<open>x := T{}\<close> ends with a closing brace and is longer than \<^verbatim>\<open>{}\<close>, and the
  counter is not decremented for it.
\<close>

theorem countClose_longer_line_counterexample:
  "last ''x := T{}'' = CHR ''}'' \<and> ''x := T{}'' \<noteq> ''{}'' \<and> countClose ''x := T{}'' 1 \<noteq> 1 - 1"
  by (simp add: countClose_def HasSuffix_def)

section \<open>Expressions\<close>




section \<open>Statements\<close>

lemma isNamedIdent_iff: "isNamedIdent v name \<longleftrightarrow> v = Ident name"
  by (cases v) auto

lemmas demo_defs = demo_def demo_ParseExpr_def demo_ParseFile_def demo_exprs_def demo_blocks_def
  demo_session_def run_ok_def run_status2_def run_status2_silent_def demo_Dir_def
  demo_TrimSpace_def newline_def

text \<open>
  C6, as the code has it: when the wrapped block parses, its last statement is an
  assignment and the caller did not ask for silence, \<^verbatim>\<open>evalStmt\<close> appends the
  statements of the block and after them one call of \<^verbatim>\<open>__gophernotes\<close> on the
  left-hand sides that are not the blank identifier, provided there is at least one;
  when every left-hand side is blank, nothing is appended after the block. A silent
  call appends the statements of the block alone.
\<close>

theorem evalStmt_prints_last_assignment:
  assumes "ParseFile env ''stmt.go'' (''package P; func F() { '' @ inp @ '' }'') = (f, None)"
    and "map_of (Scope f) ''F'' = Some (FuncDecl n (Some stmts))"
    and "stmts \<noteq> []"
    and "last stmts = AssignStmt lhs tok rhs"
  shows "evalStmt env inp False s w =
           Some (None,
                 s\<lparr>mainBody := mainBody s @ stmts @
                      (if filter (\<lambda>v. v \<noteq> Ident ''_'') lhs = [] then []
                       else [ExprStmt (CallExpr (Ident ''__gophernotes'')
                                (filter (\<lambda>v. v \<noteq> Ident ''_'') lhs))]),
                   spare := appendSpare env (mainBody s) (spare s)
                     (stmts @
                      (if filter (\<lambda>v. v \<noteq> Ident ''_'') lhs = [] then []
                       else [ExprStmt (CallExpr (Ident ''__gophernotes'')
                                (filter (\<lambda>v. v \<noteq> Ident ''_'') lhs))]))\<rparr>,
                 w)
         \<and> evalStmt env inp True s w =
           Some (None,
                 s\<lparr>mainBody := mainBody s @ stmts,
                   spare := appendSpare env (mainBody s) (spare s) stmts\<rparr>,
                 w)"
  using assms
  by (simp add: evalStmt_def printLastValues_def appendStatements_def printCall_def
      printerName_def isNamedIdent_iff)

theorem evalStmt_prints_last_assignment_witness:
  "snd (ParseFile demo ''stmt.go'' (''package P; func F() { '' @ ''a, _ := g()'' @ '' }'')) = None \<and>
   evalStmt demo ''a, _ := g()'' False demo_session run_ok =
     Some (None,
           demo_session\<lparr>mainBody :=
             [AssignStmt [Ident ''a'', Ident ''_''] '':='' [CallExpr (Ident ''g'') []],
              ExprStmt (CallExpr (Ident ''__gophernotes'') [Ident ''a''])]\<rparr>,
           run_ok)"
proof -
  let ?stmts = "[AssignStmt [Ident ''a'', Ident ''_''] '':='' [CallExpr (Ident ''g'') []]]"
  let ?f = "\<lparr>Name = ''P'', Decls = [FuncDecl ''F'' (Some ?stmts)],
             Scope = [(''F'', FuncDecl ''F'' (Some ?stmts))]\<rparr>"
  have p: "ParseFile demo ''stmt.go'' (''package P; func F() { '' @ ''a, _ := g()'' @ '' }'') = (?f, None)"
    by (simp add: demo_defs)
  have l: "map_of (Scope ?f) ''F'' = Some (FuncDecl ''F'' (Some ?stmts))"
    by simp
  have n: "?stmts \<noteq> []"
    by simp
  have a: "last ?stmts = AssignStmt [Ident ''a'', Ident ''_''] '':='' [CallExpr (Ident ''g'') []]"
    by simp
  have g: "appendSpare demo [] []
             [AssignStmt [Ident ''a'', Ident ''_''] '':='' [CallExpr (Ident ''g'') []],
              ExprStmt (CallExpr (Ident ''__gophernotes'') [Ident ''a''])] = []"
    by (simp add: appendSpare_def demo_def)
  show ?thesis
    using p g evalStmt_prints_last_assignment[OF p l n a, of demo_session run_ok]
    by (simp add: demo_session_def)
qed

text \<open>
  The block \<^verbatim>\<open>_ = 1\<close> is a single assignment and the call is not silent, and yet no
  call of the printer follows the assignment in the body.
\<close>

theorem evalStmt_blank_assignment_counterexample:
  "evalStmt demo ''_ = 1'' False demo_session run_ok =
     Some (None, demo_session\<lparr>mainBody := [AssignStmt [Ident ''_''] ''='' [OtherExpr ''1'']]\<rparr>, run_ok)"
  by code_simp

section \<open>The arguments of go run\<close>

text \<open>
  C7, as the code has it: when the session file has been created and printed,
  \<^verbatim>\<open>Run\<close> executes \<^verbatim>\<open>go\<close> with the arguments \<^verbatim>\<open>run\<close>, then the paths of the included
  files in their order, then the path of the session file, which comes last.
\<close>

theorem Run_arguments:
  assumes "os_Create env (FilePath s) w = (None, w1)"
    and "Fprint env (FilePath s) (File s) (Some (mainBody s)) w1 = (None, w2)"
  shows "Run env s w = exec_Output env ''go'' ([''run''] @ ExtraFilePaths s @ [FilePath s]) w2"
  using assms by (simp add: Run_def goRun_def)

theorem Run_arguments_witness:
  "os_Create demo (FilePath demo_session_aux) run_ok = (None, run_ok) \<and>
   go_calls (snd (Run demo demo_session_aux run_ok)) =
     [[''go'', ''run'', ''/tmp/s/gore_extarnal_1.go'', ''/tmp/s/gophernotes_session.go'']]"
proof -
  have c: "os_Create demo (FilePath demo_session_aux) run_ok = (None, run_ok)"
    by (simp add: demo_def)
  have p: "Fprint demo (FilePath demo_session_aux) (File demo_session_aux)
             (Some (mainBody demo_session_aux)) run_ok = (None, run_ok)"
    by (simp add: demo_def)
  show ?thesis
    using c Run_arguments[OF c p]
    by (simp add: demo_def demo_session_aux_def demo_session_def run_ok_def)
qed

text \<open>
  With one included file the command line is not \<^verbatim>\<open>run\<close>, the session file, the
  included file.
\<close>

theorem Run_session_file_first_counterexample:
  "go_calls (snd (Run demo demo_session_aux run_ok)) \<noteq>
     [''go'' # ''run'' # FilePath demo_session_aux # ExtraFilePaths demo_session_aux]"
  by (simp add: Run_def goRun_def demo_def demo_session_aux_def demo_session_def run_ok_def)

section \<open>The loop of separateEvalStmt\<close>

text \<open>
  After every round that goes on, lines are pending exactly when the counter is not
  zero, and then \<^verbatim>\<open>exprCount\<close> is positive.
\<close>

lemma separateBuffer_Next:
  assumes "separateBuffer env line v s w = Next v1 s1 w1" and "0 \<le> exprCount v"
  shows "0 \<le> exprCount v1 \<and> (stmtLines v1 = [] \<longleftrightarrow> bracketCount v1 = 0) \<and>
         (stmtLines v1 \<noteq> [] \<longrightarrow> 0 < exprCount v1)"
  using assms
  by (auto simp: separateBuffer_def Let_def split: if_splits option.splits prod.splits)

lemma separateStep_Next:
  assumes "separateStep env line v s w = Next v1 s1 w1"
    and "0 \<le> exprCount v" and "stmtLines v = [] \<longleftrightarrow> bracketCount v = 0"
    and "stmtLines v \<noteq> [] \<longrightarrow> 0 < exprCount v"
  shows "0 \<le> exprCount v1 \<and> (stmtLines v1 = [] \<longleftrightarrow> bracketCount v1 = 0) \<and>
         (stmtLines v1 \<noteq> [] \<longrightarrow> 0 < exprCount v1)"
proof (cases "bracketCount v = 0 \<and> length (stmtLines v) = 0")
  case False
  then have "separateBuffer env line v s w = Next v1 s1 w1"
    using assms(1) by (auto simp: separateStep_def split: if_splits)
  then show ?thesis using assms(2) by (rule separateBuffer_Next)
next
  case True
  show ?thesis
  proof (cases "evalExpr env line s")
    case (Pair r s')
    show ?thesis
    proof (cases r)
      case (Inr e)
      then have "v1 = v" using assms(1) True Pair by (simp add: separateStep_def)
      then show ?thesis using assms by simp
    next
      case (Inl err)
      then have "separateBuffer env line (v\<lparr>bracketCount := countOpen line (bracketCount v)\<rparr>) s' w
                 = Next v1 s1 w1"
        using assms(1) True Pair by (simp add: separateStep_def)
      then show ?thesis using assms(2) separateBuffer_Next by fastforce
    qed
  qed
qed

lemma separateLoop_Next:
  assumes "separateLoop env lines v s w = Next v1 s1 w1"
    and "0 \<le> exprCount v" and "stmtLines v = [] \<longleftrightarrow> bracketCount v = 0"
    and "stmtLines v \<noteq> [] \<longrightarrow> 0 < exprCount v"
  shows "0 \<le> exprCount v1 \<and> (stmtLines v1 = [] \<longleftrightarrow> bracketCount v1 = 0) \<and>
         (stmtLines v1 \<noteq> [] \<longrightarrow> 0 < exprCount v1)"
  using assms
proof (induction lines arbitrary: v s w)
  case Nil
  then show ?case by simp
next
  case (Cons line rest)
  from Cons.prems(1) obtain v' s' w' where
    step: "separateStep env line v s w = Next v' s' w'" and
    loop: "separateLoop env rest v' s' w' = Next v1 s1 w1"
    by (auto split: round.splits)
  from separateStep_Next[OF step Cons.prems(2-4)] Cons.IH[OF loop] show ?case
    by blast
qed

text \<open>
  C4, as the code has it. Inside the loop a line that leaves the counter different
  from zero is only buffered: nothing is parsed and the session is untouched. After
  the last line the pending block is parsed whatever the counter: when the loop ends
  with a counter that is not zero there are pending lines, they are handed to
  \<^verbatim>\<open>evalStmt\<close> in silent mode, and \<^verbatim>\<open>separateEvalStmt\<close> returns what that call returns,
  no error, \<^verbatim>\<open>ErrContinue\<close> or any other error. When the loop ends with the counter at
  zero nothing is pending and no error is returned.
\<close>

theorem separateEvalStmt_pending_block:
  assumes "separateLoop env (Split inp) sepvars0 s w = Next v s1 w1"
  shows "(bracketCount v \<noteq> 0 \<longrightarrow>
            stmtLines v \<noteq> [] \<and>
            separateEvalStmt env inp s w = evalStmt env (Join (stmtLines v)) True s1 w1) \<and>
         (bracketCount v = 0 \<longrightarrow> separateEvalStmt env inp s w = Some (None, s1, w1)) \<and>
         (\<forall>line u t x. countOpen line (countClose line (bracketCount u)) \<noteq> 0 \<longrightarrow>
            separateBuffer env line u t x =
              Next (u\<lparr>stmtLines := stmtLines u @ [line],
                      bracketCount := countOpen line (countClose line (bracketCount u)),
                      exprCount := exprCount u + 1\<rparr>) t x)"
proof -
  have inv: "0 \<le> exprCount v \<and> (stmtLines v = [] \<longleftrightarrow> bracketCount v = 0) \<and>
             (stmtLines v \<noteq> [] \<longrightarrow> 0 < exprCount v)"
    using separateLoop_Next[OF assms] by (simp add: sepvars0_def)
  have "separateEvalStmt env inp s w = evalStmt env (Join (stmtLines v)) True s1 w1"
    if "bracketCount v \<noteq> 0"
    using that inv assms by (simp add: separateEvalStmt_def)
  moreover have "separateEvalStmt env inp s w = Some (None, s1, w1)" if "bracketCount v = 0"
    using that inv assms by (simp add: separateEvalStmt_def)
  moreover have "separateBuffer env line u t x =
      Next (u\<lparr>stmtLines := stmtLines u @ [line],
              bracketCount := countOpen line (countClose line (bracketCount u)),
              exprCount := exprCount u + 1\<rparr>) t x"
    if "countOpen line (countClose line (bracketCount u)) \<noteq> 0" for line u t x
    using that by (simp add: separateBuffer_def Let_def)
  ultimately show ?thesis using inv by blast
qed

text \<open>
  A block of two lines, an \<^verbatim>\<open>if\<close> and its closing brace: the counter stands at 1 after
  the last line, and the block is parsed all the same and appended.
\<close>

theorem separateEvalStmt_pending_block_witness:
  "separateLoop demo (Split (''if true {'' @ [newline] @ ''}'')) sepvars0 demo_session run_ok =
     Next \<lparr>stmtLines = [''if true {'', ''}''], exprCount = 2, bracketCount = 1\<rparr> demo_session run_ok \<and>
   separateEvalStmt demo (''if true {'' @ [newline] @ ''}'') demo_session run_ok =
     Some (None, demo_session\<lparr>mainBody := [OtherStmt ''if true { }'']\<rparr>, run_ok)"
proof -
  let ?v = "\<lparr>stmtLines = [''if true {'', ''}''], exprCount = 2, bracketCount = 1\<rparr>"
  have h: "separateLoop demo (Split (''if true {'' @ [newline] @ ''}'')) sepvars0 demo_session run_ok =
      Next ?v demo_session run_ok"
    by code_simp
  have e: "evalStmt demo (Join (stmtLines ?v)) True demo_session run_ok =
      Some (None, demo_session\<lparr>mainBody := [OtherStmt ''if true { }'']\<rparr>, run_ok)"
    by code_simp
  have "separateEvalStmt demo (''if true {'' @ [newline] @ ''}'') demo_session run_ok =
      evalStmt demo (Join (stmtLines ?v)) True demo_session run_ok"
    using separateEvalStmt_pending_block[OF h] by simp
  with h e show ?thesis by simp
qed

text \<open>
  The fragment \<^verbatim>\<open>if true {\<close> leaves the counter at 2. The block is parsed, and what
  comes back is the error made from the output of \<^verbatim>\<open>goimports\<close>, not \<^verbatim>\<open>ErrContinue\<close>.
\<close>

theorem separateEvalStmt_unbalanced_counterexample:
  "separateLoop demo (Split ''if true {'') sepvars0 demo_session run_ok =
     Next \<lparr>stmtLines = [''if true {''], exprCount = 1, bracketCount = 2\<rparr> demo_session run_ok \<and>
   separateEvalStmt demo ''if true {'' demo_session run_ok =
     Some (Some (errorString ''func_proxy.go:4:4: expected declaration''), demo_session,
           run_ok\<lparr>go_calls := [[''goimports'', ''-w'', ''/tmp/s/func_proxy.go'']]\<rparr>) \<and>
   errorString ''func_proxy.go:4:4: expected declaration'' \<noteq> ErrContinue"
  by code_simp

section \<open>Exit status 2\<close>

text \<open>
  C1, as the code has it: when \<^verbatim>\<open>go run\<close> ends with exit status 2, the error that
  \<^verbatim>\<open>Eval\<close> returns is nil when the captured standard error is empty and the cleanup
  (the cut of the body, \<^verbatim>\<open>cleanEvalStmt\<close>, the rewriting of the session file) reports
  no error, and only then. After a cleanup without error and with a standard error
  that is not empty, the error returned is \<^verbatim>\<open>Unexpected stderr from execution\<close>.
\<close>

theorem Eval_run_exit_status_2:
  assumes "Run env s w = ((output, stderr, Some (ExitError (Some 2) m)), w1)"
  shows "(\<forall>s1 s2 w2.
            restoreMainBody s = Some s1 \<and> Eval_tidy env inp prior s1 w1 = Some (None, s2, w2) \<longrightarrow>
            Eval_run env inp prior s w =
              Some ((output, stderr,
                     if stderr = [] then None
                     else Some (errorString ''Unexpected stderr from execution'')),
                    s2, w2)) \<and>
         (\<forall>out serr s' w'.
            Eval_run env inp prior s w = Some ((out, serr, None), s', w') \<longrightarrow>
            stderr = [] \<and>
            (\<exists>s1. restoreMainBody s = Some s1 \<and>
                  Eval_tidy env inp prior s1 w1 = Some (None, s', w')))"
proof -
  have rb: "Eval_rollback stderr (Some (ExitError (Some 2) m)) s =
              (case restoreMainBody s of None \<Rightarrow> None | Some s1 \<Rightarrow> Some (s1, None))"
    by (simp add: Eval_rollback_def)
  have run: "Eval_run env inp prior s w =
               (case restoreMainBody s of
                  None \<Rightarrow> None
                | Some s1 \<Rightarrow> Eval_cleanup env inp prior output stderr None s1 w1)"
    using assms by (simp add: Eval_run_def rb split: option.splits)
  have a: "Eval_run env inp prior s w =
             Some ((output, stderr,
                    if stderr = [] then None
                    else Some (errorString ''Unexpected stderr from execution'')),
                   s2, w2)"
    if "restoreMainBody s = Some s1" "Eval_tidy env inp prior s1 w1 = Some (None, s2, w2)"
    for s1 s2 w2
    using that by (simp add: run Eval_cleanup_def)
  have b: "stderr = [] \<and>
           (\<exists>s1. restoreMainBody s = Some s1 \<and> Eval_tidy env inp prior s1 w1 = Some (None, s', w'))"
    if "Eval_run env inp prior s w = Some ((out, serr, None), s', w')" for out serr s' w'
  proof -
    from that obtain s1 where
      r: "restoreMainBody s = Some s1" and
      c: "Eval_cleanup env inp prior output stderr None s1 w1 = Some ((out, serr, None), s', w')"
      by (auto simp: run split: option.splits)
    from c have "stderr = [] \<and> Eval_tidy env inp prior s1 w1 = Some (None, s', w')"
      by (auto simp: Eval_cleanup_def split: option.splits prod.splits if_splits)
    with r show ?thesis by blast
  qed
  show ?thesis using a b by blast
qed

text \<open>
  A run that ends with exit status 2 and an empty standard error, after the
  expression \<^verbatim>\<open>y\<close> has been classified: \<^verbatim>\<open>Eval\<close> returns a nil error.
\<close>

theorem Eval_run_exit_status_2_witness:
  "Run demo (demo_session\<lparr>mainBody := [ExprStmt (CallExpr (Ident ''__gophernotes'') [Ident ''y''])]\<rparr>)
       run_status2_silent =
     (([], [], Some (ExitError (Some 2) ''exit status 2'')),
      run_status2_silent\<lparr>go_calls := [[''go'', ''run'', ''/tmp/s/gophernotes_session.go'']]\<rparr>) \<and>
   Eval_run demo ''y'' 0
       (demo_session\<lparr>mainBody := [ExprStmt (CallExpr (Ident ''__gophernotes'') [Ident ''y''])]\<rparr>)
       run_status2_silent =
     Some (([], [], None),
           demo_session\<lparr>mainBody := [ExprStmt (CallExpr (Ident ''__gophernotes'') [Ident ''y''])]\<rparr>,
           run_status2_silent\<lparr>go_calls := [[''go'', ''run'', ''/tmp/s/gophernotes_session.go'']]\<rparr>)"
proof -
  let ?s = "demo_session\<lparr>mainBody := [ExprStmt (CallExpr (Ident ''__gophernotes'') [Ident ''y''])]\<rparr>"
  let ?s1 = "demo_session\<lparr>spare := [ExprStmt (CallExpr (Ident ''__gophernotes'') [Ident ''y''])]\<rparr>"
  let ?w = "run_status2_silent\<lparr>go_calls := [[''go'', ''run'', ''/tmp/s/gophernotes_session.go'']]\<rparr>"
  have r: "Run demo ?s run_status2_silent = (([], [], Some (ExitError (Some 2) ''exit status 2'')), ?w)"
    by code_simp
  have b: "restoreMainBody ?s = Some ?s1"
    by code_simp
  have c: "Eval_tidy demo ''y'' 0 ?s1 ?w = Some (None, ?s, ?w)"
    by code_simp
  have "Eval_run demo ''y'' 0 ?s run_status2_silent =
          Some (([], [], if ([]::string) = [] then None
                         else Some (errorString ''Unexpected stderr from execution'')), ?s, ?w)"
    by (rule Eval_run_exit_status_2[OF r, of "''y''" 0, THEN conjunct1, rule_format,
          OF conjI[OF b c]])
  then have e: "Eval_run demo ''y'' 0 ?s run_status2_silent = Some (([], [], None), ?s, ?w)"
    by (simp only: if_True refl)
  show ?thesis by (rule conjI[OF r e])
qed

text \<open>
  The fragment \<^verbatim>\<open>y\<close> with \<^verbatim>\<open>y\<close> undeclared: the run ends with exit status 2 and the
  compiler's message on the standard error, and \<^verbatim>\<open>Eval\<close> returns an error.
\<close>

theorem Eval_exit_status_2_error_counterexample:
  "snd (snd (go_answer run_status2)) = Some (ExitError (Some 2) ''exit status 2'') \<and>
   Eval demo ''y'' demo_session run_status2 =
     Some (([], ''./gophernotes_session.go:12:2: undefined: y'',
            Some (errorString ''Unexpected stderr from execution'')),
           demo_session\<lparr>mainBody := [ExprStmt (CallExpr (Ident ''__gophernotes'') [Ident ''y''])]\<rparr>,
           run_status2\<lparr>go_calls := [[''go'', ''run'', ''/tmp/s/gophernotes_session.go'']]\<rparr>)"
  by code_simp

text \<open>
  C2 at the fragment \<^verbatim>\<open>x := y\<close> with \<^verbatim>\<open>y\<close> undeclared: the run ends with exit status
  2, the body is restored, and then the cleanup pass appends the statement of the
  fragment again. The body was empty before the call and holds the assignment after
  it.
\<close>

theorem Eval_exit_status_2_keeps_fragment:
  "mainBody demo_session = [] \<and>
   Eval demo ''x := y'' demo_session run_status2 =
     Some (([], ''./gophernotes_session.go:12:2: undefined: y'',
            Some (errorString ''Unexpected stderr from execution'')),
           demo_session\<lparr>mainBody := [AssignStmt [Ident ''x''] '':='' [Ident ''y'']]\<rparr>,
           run_status2\<lparr>go_calls := [[''go'', ''run'', ''/tmp/s/gophernotes_session.go'']]\<rparr>)"
  by code_simp

section \<open>A classification error\<close>

text \<open>
  C3 at the fragment of the two lines \<^verbatim>\<open>1\<close> and \<^verbatim>\<open>func bad(\<close>: the first line is an
  expression and its printer call is appended, the second fails in \<^verbatim>\<open>evalStmt\<close>.
  \<^verbatim>\<open>Eval\<close> returns that error and \<^verbatim>\<open>go run\<close> is not executed, but the printer call of
  the first line stays in the body, which was empty at the checkpoint.
\<close>

theorem Eval_classification_error_keeps_nodes:
  "mainBody demo_session = [] \<and>
   Eval demo (''1'' @ [newline] @ ''func bad('') demo_session run_ok =
     Some (([], ''func_proxy.go:4:4: expected declaration'',
            Some (errorString ''func_proxy.go:4:4: expected declaration'')),
           demo_session\<lparr>mainBody := [ExprStmt (CallExpr (Ident ''__gophernotes'') [OtherExpr ''1''])]\<rparr>,
           run_ok\<lparr>go_calls := [[''goimports'', ''-w'', ''/tmp/s/func_proxy.go'']]\<rparr>)"
  by code_simp

end
